theory Spec2Isabelle
  imports Complex_Main
begin

section \<open>Text\<close>

text \<open>
  A Python \<open>str\<close> is modelled as a \<^typ>\<open>string\<close> whose characters are the code points
  below 256 (ASCII and the Latin-1 supplement). \<open>str.lower\<close>, \<open>str.isspace\<close> and the
  regular-expression classes are written out for that range.
\<close>

definition ord :: "char \<Rightarrow> nat" where
  "ord c = of_char c"

definition is_space :: "char \<Rightarrow> bool" where
  \<comment> \<open>the characters \<open>str.strip()\<close> removes\<close>
  "is_space c = (ord c \<in> {9, 10, 11, 12, 13, 28, 29, 30, 31, 32, 133, 160})"

definition is_upper :: "char \<Rightarrow> bool" where
  "is_upper c = ((65 \<le> ord c \<and> ord c \<le> 90) \<or> (192 \<le> ord c \<and> ord c \<le> 214)
                 \<or> (216 \<le> ord c \<and> ord c \<le> 222))"

definition lower_char :: "char \<Rightarrow> char" where
  "lower_char c = (if is_upper c then char_of (ord c + 32) else c)"

definition lower :: "string \<Rightarrow> string" where
  "lower s = map lower_char s"

definition strip :: "string \<Rightarrow> string" where
  "strip s = rev (dropWhile is_space (rev (dropWhile is_space s)))"

section \<open>Tables and files\<close>

text \<open>
  A cell of a pandas table: a missing value (\<open>None\<close>, \<open>NaN\<close>, \<open>NaT\<close>), a string, a
  number, or a calendar date, counted in days from 1970-01-01. A number cell stands for
  a numeric value that is whole, as the day counts of the task table are. A table has its
  column names in order and one row per record, each row giving the cell under a column
  name.
\<close>

datatype cell = NA | Str string | Num int | Day int

type_synonym row = "string \<rightharpoonup> cell"

record dataframe =
  columns :: "string list"
  rows :: "row list"

datatype error = ParserError | IndexError | TypeError

definition cell_at :: "row \<Rightarrow> string \<Rightarrow> cell" where
  "cell_at r c = (case r c of None \<Rightarrow> NA | Some v \<Rightarrow> v)"

definition cell_eq :: "cell \<Rightarrow> cell \<Rightarrow> bool" where
  \<comment> \<open>elementwise \<open>==\<close> of pandas: a missing value equals nothing\<close>
  "cell_eq a b = (a \<noteq> NA \<and> b \<noteq> NA \<and> a = b)"

text \<open>
  A CSV file is text. With the quoting undone it is a header of column names and one
  record per line, each record giving the text of the field under a column name (the
  empty text where the line is short). A file that \<open>pd.read_csv\<close> cannot parse is
  unreadable: reading it raises.
\<close>

type_synonym text_row = "string \<rightharpoonup> string"

record csv_table =
  csv_header :: "string list"
  csv_rows :: "text_row list"

datatype csv_file = Unreadable | Table csv_table

type_synonym filesystem = "string \<rightharpoonup> csv_file"

definition text_at :: "text_row \<Rightarrow> string \<Rightarrow> string" where
  "text_at r c = (case r c of None \<Rightarrow> [] | Some s \<Rightarrow> s)"

subsection \<open>Writing: \<open>DataFrame.to_csv(filename, index=False)\<close>\<close>

definition digit :: "nat \<Rightarrow> char" where
  "digit n = char_of (48 + n)"

fun decimal_nat :: "nat \<Rightarrow> string" where
  "decimal_nat n = (if n < 10 then [digit n] else decimal_nat (n div 10) @ [digit (n mod 10)])"

definition decimal :: "int \<Rightarrow> string" where
  "decimal n = (if n < 0 then CHR ''-'' # decimal_nat (nat (- n)) else decimal_nat (nat n))"

definition zero_pad :: "nat \<Rightarrow> string \<Rightarrow> string" where
  "zero_pad k s = replicate (k - length s) CHR ''0'' @ s"

definition isoformat :: "int \<Rightarrow> string" where
  \<comment> \<open>\<open>str\<close> of a \<open>datetime.date\<close>, year-month-day, from the day count\<close>
  "isoformat d =
     (let z = d + 719468;
          era = z div 146097;
          doe = z - era * 146097;
          yoe = (doe - doe div 1460 + doe div 36524 - doe div 146096) div 365;
          doy = doe - (365 * yoe + yoe div 4 - yoe div 100);
          mp = (5 * doy + 2) div 153;
          day = doy - (153 * mp + 2) div 5 + 1;
          month = (if mp < 10 then mp + 3 else mp - 9);
          year = yoe + era * 400 + (if month \<le> 2 then 1 else 0)
      in zero_pad 4 (decimal year) @ ''-'' @ zero_pad 2 (decimal month)
           @ ''-'' @ zero_pad 2 (decimal day))"

definition to_text :: "cell \<Rightarrow> string" where
  \<comment> \<open>the field \<open>to_csv\<close> writes for a cell: nothing for a missing value, a string as it is,
      a number as its numeral (a float column gets a trailing \<open>.0\<close>, and reads back as the
      same numbers), a date in ISO form\<close>
  "to_text v = (case v of NA \<Rightarrow> [] | Str s \<Rightarrow> s | Num n \<Rightarrow> decimal n | Day d \<Rightarrow> isoformat d)"

definition to_csv :: "string list \<Rightarrow> row list \<Rightarrow> csv_table" where
  "to_csv cs rs = \<lparr>csv_header = cs, csv_rows = map (\<lambda>r c. map_option to_text (r c)) rs\<rparr>"

subsection \<open>Reading: \<open>pd.read_csv(filename)\<close>\<close>

text \<open>
  With its default arguments \<open>read_csv\<close> reads a field that is empty or one of the texts
  of \<open>NA_VALUES\<close> as a missing value (the default \<open>na_values\<close> of pandas 2), and it types
  each column from the other fields: a column of numerals or of booleans becomes a column
  of such values, any other column stays text. That inference is the parameter \<open>infer\<close>:
  given the fields of a column that are not missing, it returns their typed values, or
  nothing when the column stays text.
\<close>

definition NA_VALUES :: "string set" where
  "NA_VALUES = set ['''', ''#N/A'', ''#N/A N/A'', ''#NA'', ''-1.#IND'', ''-1.#QNAN'', ''-NaN'',
                    ''-nan'', ''1.#IND'', ''1.#QNAN'', ''<NA>'', ''N/A'', ''NA'', ''NULL'', ''NaN'',
                    ''None'', ''n/a'', ''nan'', ''null'']"

fun fill :: "string list \<Rightarrow> cell list \<Rightarrow> cell list" where
  \<comment> \<open>the typed values at the places of the fields that are not missing\<close>
  "fill [] vs = []"
| "fill (f # fs) vs =
     (if f \<in> NA_VALUES then NA # fill fs vs
      else (case vs of [] \<Rightarrow> NA # fill fs [] | v # vs' \<Rightarrow> v # fill fs vs'))"

definition read_column :: "(string list \<Rightarrow> cell list option) \<Rightarrow> string list \<Rightarrow> cell list" where
  "read_column infer texts =
     (case infer (filter (\<lambda>f. f \<notin> NA_VALUES) texts) of
        None \<Rightarrow> map (\<lambda>f. if f \<in> NA_VALUES then NA else Str f) texts
      | Some vs \<Rightarrow> fill texts vs)"

definition read_csv :: "(string list \<Rightarrow> cell list option) \<Rightarrow> csv_table \<Rightarrow> dataframe" where
  "read_csv infer t =
     \<lparr>columns = csv_header t,
      rows = map (\<lambda>i c. if c \<in> set (csv_header t)
                          then Some (read_column infer (map (\<lambda>r. text_at r c) (csv_rows t)) ! i)
                          else None)
                 [0..<length (csv_rows t)]\<rparr>"

section \<open>Credential store (edunet\_auth.py)\<close>

definition USER_DB :: string where
  "USER_DB = ''users.csv''"

record credential =
  cred_email :: cell
  cred_password :: cell

definition credential_of_row :: "row \<Rightarrow> credential" where
  "credential_of_row r = \<lparr>cred_email = cell_at r ''email'', cred_password = cell_at r ''password''\<rparr>"

definition row_of_credential :: "credential \<Rightarrow> row" where
  "row_of_credential u = [''email'' \<mapsto> cred_email u, ''password'' \<mapsto> cred_password u]"

definition load_users :: "(string list \<Rightarrow> cell list option) \<Rightarrow> filesystem \<Rightarrow> error + credential list" where
  "load_users infer fs =
     (case fs USER_DB of
        None \<Rightarrow> Inr []
      | Some Unreadable \<Rightarrow> Inl ParserError
      | Some (Table t) \<Rightarrow>
          let df = read_csv infer t in
          if ''email'' \<notin> set (columns df) \<or> ''password'' \<notin> set (columns df) then Inr []
          else Inr (map credential_of_row (rows df)))"

definition save_users :: "filesystem \<Rightarrow> credential list \<Rightarrow> filesystem" where
  "save_users fs users =
     fs(USER_DB \<mapsto> Table (to_csv [''email'', ''password''] (map row_of_credential users)))"

definition register_user ::
  "(string \<Rightarrow> string) \<Rightarrow> (string list \<Rightarrow> cell list option) \<Rightarrow> filesystem \<Rightarrow> string \<Rightarrow> string
     \<Rightarrow> error + (bool \<times> string) \<times> filesystem" where
  \<comment> \<open>the first argument is \<open>hash_password\<close>, the SHA-256 hex digest\<close>
  "register_user hash_password infer fs email password =
     (case load_users infer fs of
        Inl e \<Rightarrow> Inl e
      | Inr users \<Rightarrow>
          let email = lower (strip email) in
          if list_ex (\<lambda>u. cell_eq (cred_email u) (Str email)) users
          then Inr ((False, ''User already exists.''), fs)
          else
            let hashed = hash_password password;
                new = [\<lparr>cred_email = Str email, cred_password = Str hashed\<rparr>];
                users = users @ new
            in Inr ((True, ''Registered successfully.''), save_users fs users))"

definition login_user ::
  "(string \<Rightarrow> string) \<Rightarrow> (string list \<Rightarrow> cell list option) \<Rightarrow> filesystem \<Rightarrow> string \<Rightarrow> string
     \<Rightarrow> error + bool" where
  "login_user hash_password infer fs email password =
     (case load_users infer fs of
        Inl e \<Rightarrow> Inl e
      | Inr users \<Rightarrow>
          let email = lower (strip email);
              hashed = hash_password password;
              matched = filter (\<lambda>u. cell_eq (cred_email u) (Str email)
                                    \<and> cell_eq (cred_password u) (Str hashed)) users
          in Inr (matched \<noteq> []))"

section \<open>Task store (edunet\_study\_planner.py)\<close>

text \<open>
  The task table always has the thirteen columns of \<open>cols\<close>: \<open>load_tasks_for_user\<close>
  returns \<open>df[cols]\<close>, and the handlers only change cells or drop rows. A row of it is a
  record with one field per column.
\<close>

record task =
  Task_Name :: cell
  Course :: cell
  Due_Date :: cell
  Effort :: cell
  Type :: cell
  User_Priority :: cell
  AI_Priority :: cell
  Status :: cell
  Keywords :: cell
  Days_Until_Due :: cell
  Actual_AI_Priority :: cell
  Actual_Effort_Rating :: cell
  Completed_Date :: cell

definition cols :: "string list" where
  "cols = [''Task Name'', ''Course'', ''Due Date'', ''Effort'', ''Type'', ''User Priority'',
           ''AI Priority'', ''Status'', ''Keywords'', ''Days Until Due'', ''Actual_AI_Priority'',
           ''Actual_Effort_Rating'', ''Completed Date'']"

definition task_of_row :: "row \<Rightarrow> task" where
  "task_of_row r =
     \<lparr>Task_Name = cell_at r ''Task Name'', Course = cell_at r ''Course'',
      Due_Date = cell_at r ''Due Date'', Effort = cell_at r ''Effort'',
      Type = cell_at r ''Type'', User_Priority = cell_at r ''User Priority'',
      AI_Priority = cell_at r ''AI Priority'', Status = cell_at r ''Status'',
      Keywords = cell_at r ''Keywords'', Days_Until_Due = cell_at r ''Days Until Due'',
      Actual_AI_Priority = cell_at r ''Actual_AI_Priority'',
      Actual_Effort_Rating = cell_at r ''Actual_Effort_Rating'',
      Completed_Date = cell_at r ''Completed Date''\<rparr>"

definition row_of_task :: "task \<Rightarrow> row" where
  "row_of_task t =
     [''Task Name'' \<mapsto> Task_Name t, ''Course'' \<mapsto> Course t, ''Due Date'' \<mapsto> Due_Date t,
      ''Effort'' \<mapsto> Effort t, ''Type'' \<mapsto> Type t, ''User Priority'' \<mapsto> User_Priority t,
      ''AI Priority'' \<mapsto> AI_Priority t, ''Status'' \<mapsto> Status t, ''Keywords'' \<mapsto> Keywords t,
      ''Days Until Due'' \<mapsto> Days_Until_Due t,
      ''Actual_AI_Priority'' \<mapsto> Actual_AI_Priority t,
      ''Actual_Effort_Rating'' \<mapsto> Actual_Effort_Rating t,
      ''Completed Date'' \<mapsto> Completed_Date t]"

definition field :: "string \<Rightarrow> task \<Rightarrow> cell" where
  \<comment> \<open>the cell of a task under a column name\<close>
  "field c t = cell_at (row_of_task t) c"

definition keeps :: "char \<Rightarrow> bool" where
  \<comment> \<open>the class \<open>[0-9A-Za-z\-_.]\<close>\<close>
  "keeps c = ((48 \<le> ord c \<and> ord c \<le> 57) \<or> (65 \<le> ord c \<and> ord c \<le> 90)
              \<or> (97 \<le> ord c \<and> ord c \<le> 122) \<or> c = CHR ''-'' \<or> c = CHR ''_'' \<or> c = CHR ''.'')"

definition sanitize_email_for_filename :: "string \<Rightarrow> string" where
  "sanitize_email_for_filename email = map (\<lambda>c. if keeps c then c else CHR ''_'') (lower email)"

definition get_tasks_filename_for_user :: "string \<Rightarrow> string" where
  "get_tasks_filename_for_user email = ''tasks_'' @ sanitize_email_for_filename email @ ''.csv''"

definition ensure_column :: "string \<Rightarrow> dataframe \<Rightarrow> dataframe" where
  \<comment> \<open>\<open>if c not in df.columns: df[c] = None\<close>\<close>
  "ensure_column c df =
     (if c \<notin> set (columns df)
      then df\<lparr>columns := columns df @ [c], rows := map (\<lambda>r. r(c \<mapsto> NA)) (rows df)\<rparr>
      else df)"

definition column :: "dataframe \<Rightarrow> string \<Rightarrow> cell list" where
  \<comment> \<open>\<open>df[c]\<close>, the cells of a column from the first row to the last\<close>
  "column df c = map (\<lambda>r. cell_at r c) (rows df)"

text \<open>
  \<open>pd.to_datetime(column).dt.date\<close> is the parameter \<open>to_datetime\<close>: from the cells of a
  whole column it gives the column of their dates, with one cell for each cell of the
  column (a date, or a missing value), or nothing where it raises.
\<close>

definition normalize_dates ::
  "(cell list \<Rightarrow> cell list option) \<Rightarrow> string \<Rightarrow> dataframe \<Rightarrow> dataframe" where
  \<comment> \<open>\<open>try: df[c] = pd.to_datetime(df[c]).dt.date  except Exception: pass\<close>\<close>
  "normalize_dates to_datetime c df =
     (if c \<in> set (columns df)
      then (case to_datetime (column df c) of
              None \<Rightarrow> df
            | Some vs \<Rightarrow>
                df\<lparr>rows := map (\<lambda>i. (rows df ! i)(c \<mapsto> vs ! i)) [0..<length (rows df)]\<rparr>)
      else df)"

definition load_tasks_for_user ::
  "(string list \<Rightarrow> cell list option) \<Rightarrow> (cell list \<Rightarrow> cell list option) \<Rightarrow> filesystem \<Rightarrow> string
     \<Rightarrow> error + task list" where
  "load_tasks_for_user infer to_datetime fs email =
     (let filename = get_tasks_filename_for_user email in
      case fs filename of
        None \<Rightarrow> Inr []
      | Some Unreadable \<Rightarrow> Inl ParserError
      | Some (Table t) \<Rightarrow>
          let df = read_csv infer t;
              df = fold ensure_column cols df;
              df = normalize_dates to_datetime ''Due Date'' df;
              df = normalize_dates to_datetime ''Completed Date'' df
          in Inr (map task_of_row (rows df)))"

definition save_tasks_for_user :: "filesystem \<Rightarrow> string \<Rightarrow> task list \<Rightarrow> filesystem" where
  "save_tasks_for_user fs email df =
     (let filename = get_tasks_filename_for_user email
      in fs(filename \<mapsto> Table (to_csv cols (map row_of_task df))))"

definition dates_of :: "(cell list \<Rightarrow> cell list option) \<Rightarrow> cell list \<Rightarrow> cell list" where
  \<comment> \<open>a column after the attempt to convert it: the dates, or the column as it was\<close>
  "dates_of to_datetime col =
     (case to_datetime col of None \<Rightarrow> col | Some vs \<Rightarrow> map (\<lambda>i. vs ! i) [0..<length col])"

definition written :: "string \<Rightarrow> task list \<Rightarrow> string list" where
  \<comment> \<open>the fields that saving writes under a column\<close>
  "written c df = map (\<lambda>t. to_text (field c t)) df"

definition file_column :: "(string list \<Rightarrow> cell list option) \<Rightarrow> csv_table \<Rightarrow> string \<Rightarrow> cell list" where
  \<comment> \<open>what \<open>read_csv\<close> reads under a column of a file; missing values if the file has no
      such column\<close>
  "file_column infer t c =
     (if c \<in> set (csv_header t) then read_column infer (map (\<lambda>r. text_at r c) (csv_rows t))
      else replicate (length (csv_rows t)) NA)"

section \<open>Derived fields\<close>

definition STOPWORDS :: "string set" where
  "STOPWORDS = set [''the'', ''is'', ''in'', ''at'', ''to'', ''and'', ''a'', ''of'', ''on'', ''for'',
                    ''with'', ''that'', ''this'', ''as'', ''it'', ''by'', ''from'', ''an'', ''be'',
                    ''are'', ''or'', ''was'']"

definition is_az :: "char \<Rightarrow> bool" where
  \<comment> \<open>the class \<open>[a-z]\<close>\<close>
  "is_az c = (97 \<le> ord c \<and> ord c \<le> 122)"

definition is_alnum :: "char \<Rightarrow> bool" where
  \<comment> \<open>\<open>str.isalnum\<close> of one character: the letters and digits of Unicode below 256\<close>
  "is_alnum c = ((48 \<le> ord c \<and> ord c \<le> 57) \<or> (65 \<le> ord c \<and> ord c \<le> 90)
                 \<or> (97 \<le> ord c \<and> ord c \<le> 122)
                 \<or> ord c \<in> {170, 178, 179, 181, 185, 186, 188, 189, 190}
                 \<or> (192 \<le> ord c \<and> ord c \<le> 214) \<or> (216 \<le> ord c \<and> ord c \<le> 246)
                 \<or> (248 \<le> ord c \<and> ord c \<le> 255))"

definition is_word :: "char \<Rightarrow> bool" where
  \<comment> \<open>the class \<open>\w\<close>, which decides where \<open>\b\<close> matches\<close>
  "is_word c = (is_alnum c \<or> c = CHR ''_'')"

text \<open>
  \<open>re.findall(r'\b[a-z]{2,}\b', text)\<close>, scanning from the left; the flag says whether the
  character before the current position is a word character. A match starts only where
  \<open>\b\<close> holds, so after a non-word character or at the start, and \<open>[a-z]{2,}\<close> then takes the
  whole run of letters: a shorter prefix of the run ends before a letter, where \<open>\b\<close> fails.
  The closing \<open>\b\<close> asks for the end of the text or a non-word character after the run.
  Where no match starts, the scan moves on by one character.
\<close>

function findall_words :: "bool \<Rightarrow> string \<Rightarrow> string list" where
  "findall_words prev_word [] = []"
| "findall_words prev_word (c # cs) =
     (if \<not> prev_word \<and> 2 \<le> length (takeWhile is_az (c # cs))
         \<and> (dropWhile is_az (c # cs) = [] \<or> \<not> is_word (hd (dropWhile is_az (c # cs))))
      then takeWhile is_az (c # cs) # findall_words True (dropWhile is_az (c # cs))
      else findall_words (is_word c) cs)"
  by pat_completeness auto
termination
proof (relation "measure (\<lambda>(p, s). length s)")
  show "wf (measure (\<lambda>(p, s). length s))" by simp
next
  fix prev_word :: bool and c :: char and cs :: string
  assume "\<not> prev_word \<and> 2 \<le> length (takeWhile is_az (c # cs))
         \<and> (dropWhile is_az (c # cs) = [] \<or> \<not> is_word (hd (dropWhile is_az (c # cs))))"
  then have "is_az c" by (auto split: if_splits)
  then have "length (dropWhile is_az (c # cs)) \<le> length cs"
    by (simp add: length_dropWhile_le)
  then show "((True, dropWhile is_az (c # cs)), (prev_word, c # cs)) \<in> measure (\<lambda>(p, s). length s)"
    by simp
next
  fix prev_word :: bool and c :: char and cs :: string
  show "((is_word c, cs), (prev_word, c # cs)) \<in> measure (\<lambda>(p, s). length s)"
    by simp
qed

fun join :: "string \<Rightarrow> string list \<Rightarrow> string" where
  "join sep [] = []"
| "join sep [w] = w"
| "join sep (w # ws) = w @ sep @ join sep ws"

definition isalnum :: "string \<Rightarrow> bool" where
  "isalnum w = (w \<noteq> [] \<and> list_all is_alnum w)"

definition extract_keywords_simple :: "cell \<Rightarrow> string" where
  "extract_keywords_simple text =
     (case text of
        Str text \<Rightarrow>
          let text = lower text;
              words = findall_words False text;
              filtered = filter (\<lambda>w. isalnum w \<and> w \<notin> STOPWORDS) words
          in join '', '' filtered
      | _ \<Rightarrow> '''')"

text \<open>
  The tokenisation in the words of the specification: the text is lowercased, cut into its
  runs of alphabetic characters, the runs of two or more characters are kept, the stop
  words are dropped, and the rest is joined with a comma and a space.
\<close>

function alphabetic_runs :: "string \<Rightarrow> string list" where
  "alphabetic_runs [] = []"
| "alphabetic_runs (c # cs) =
     (if is_az c then takeWhile is_az (c # cs) # alphabetic_runs (dropWhile is_az (c # cs))
      else alphabetic_runs cs)"
  by pat_completeness auto
termination
proof (relation "measure length")
  show "wf (measure length)" by simp
next
  fix c :: char and cs :: string
  assume "is_az c"
  then have "length (dropWhile is_az (c # cs)) \<le> length cs"
    by (simp add: length_dropWhile_le)
  then show "(dropWhile is_az (c # cs), c # cs) \<in> measure length" by simp
next
  fix c :: char and cs :: string
  show "(cs, c # cs) \<in> measure length" by simp
qed

definition spec_extract_keywords :: "string \<Rightarrow> string" where
  "spec_extract_keywords title =
     join '', '' (filter (\<lambda>w. w \<notin> STOPWORDS)
                    (filter (\<lambda>w. 2 \<le> length w) (alphabetic_runs (lower title))))"

text \<open>
  The words of a text: its maximal runs of word characters. A token is a word of two or
  more characters, all of them letters from a to z.
\<close>

function word_runs :: "string \<Rightarrow> string list" where
  "word_runs [] = []"
| "word_runs (c # cs) =
     (if is_word c then takeWhile is_word (c # cs) # word_runs (dropWhile is_word (c # cs))
      else word_runs cs)"
  by pat_completeness auto
termination
proof (relation "measure length")
  show "wf (measure length)" by simp
next
  fix c :: char and cs :: string
  assume "is_word c"
  then have "length (dropWhile is_word (c # cs)) \<le> length cs"
    by (simp add: length_dropWhile_le)
  then show "(dropWhile is_word (c # cs), c # cs) \<in> measure length" by simp
next
  fix c :: char and cs :: string
  show "(cs, c # cs) \<in> measure length" by simp
qed

definition is_token :: "string \<Rightarrow> bool" where
  "is_token w = (2 \<le> length w \<and> list_all is_az w)"

text \<open>
  Dates are counted in days and instants in microseconds, from the same origin.
  \<open>datetime.fromisoformat\<close> is a parameter: it gives nothing where it raises, and else an
  instant without or with a time zone. Subtracting \<open>datetime.now()\<close>, which has no time
  zone, from an instant that has one raises \<open>TypeError\<close>, and so does subtracting it from a
  number. \<open>timedelta.days\<close> rounds towards minus infinity. The cells of a task table are
  never \<open>pd.Timestamp\<close> or \<open>datetime\<close> values, so those two branches have no case here.
\<close>

datatype instant = Naive int | Aware int

definition day_us :: int where
  "day_us = 86400000000"

definition calculate_days_until_due ::
  "(string \<Rightarrow> instant option) \<Rightarrow> int \<Rightarrow> cell \<Rightarrow> error + int option" where
  "calculate_days_until_due fromisoformat now due_date =
     (case due_date of
        NA \<Rightarrow> Inr None
      | Str s \<Rightarrow>
          (case fromisoformat s of
             None \<Rightarrow> Inr None
           | Some (Naive t) \<Rightarrow> Inr (Some (max 0 ((t - now) div day_us)))
           | Some (Aware t) \<Rightarrow> Inl TypeError)
      | Num n \<Rightarrow> Inl TypeError
      | Day d \<Rightarrow> Inr (Some (max 0 ((d * day_us - now) div day_us))))"

section \<open>Action center\<close>

datatype refusal = NoPendingTasks | NotOffered | Raised error

definition pending_of :: "task list \<Rightarrow> task list" where
  \<comment> \<open>\<open>df_tasks[df_tasks['Status'] == 'Pending'] if not df_tasks.empty else pd.DataFrame()\<close>\<close>
  "pending_of df_tasks =
     (if df_tasks \<noteq> [] then filter (\<lambda>t. cell_eq (Status t) (Str ''Pending'')) df_tasks else [])"

fun first_index :: "('a \<Rightarrow> bool) \<Rightarrow> 'a list \<Rightarrow> nat option" where
  \<comment> \<open>\<open>df[mask].index[0]\<close>: the position of the first selected row, if any\<close>
  "first_index P [] = None"
| "first_index P (x # xs) = (if P x then Some 0 else map_option Suc (first_index P xs))"

text \<open>
  The form that marks a task as complete. It is shown only when some task is pending, and
  its select box offers the names of the pending tasks, so \<open>choice\<close> is one of them.
  \<open>today\<close> is \<open>datetime.now().date()\<close>.
\<close>

definition complete_form ::
  "filesystem \<Rightarrow> string \<Rightarrow> int \<Rightarrow> task list \<Rightarrow> cell \<Rightarrow> string \<Rightarrow> string
     \<Rightarrow> refusal + filesystem \<times> task list" where
  "complete_form fs user_email today df_tasks choice actual_priority actual_effort =
     (let pending = pending_of df_tasks in
      if pending = [] then Inl NoPendingTasks
      else if choice \<notin> set (map Task_Name pending) then Inl NotOffered
      else
        (case first_index (\<lambda>t. cell_eq (Task_Name t) choice) df_tasks of
           None \<Rightarrow> Inl (Raised IndexError)
         | Some idx \<Rightarrow>
             let df_tasks = df_tasks[idx := (df_tasks ! idx)
                   \<lparr>Status := Str ''Completed'',
                    Actual_AI_Priority := Str actual_priority,
                    Actual_Effort_Rating := Str actual_effort,
                    Completed_Date := Day today\<rparr>]
             in Inr (save_tasks_for_user fs user_email df_tasks, df_tasks)))"

text \<open>
  The button that deletes a task; it is shown only when the table is not empty, and its
  select box offers the names in the table.
\<close>

definition delete_task ::
  "filesystem \<Rightarrow> string \<Rightarrow> task list \<Rightarrow> cell \<Rightarrow> filesystem \<times> task list" where
  "delete_task fs user_email df_tasks delete_choice =
     (if df_tasks \<noteq> []
      then
        let df_tasks = filter (\<lambda>t. \<not> cell_eq (Task_Name t) delete_choice) df_tasks
        in (save_tasks_for_user fs user_email df_tasks, df_tasks)
      else (fs, df_tasks))"

section \<open>Study time suggestion\<close>

definition effort_map :: "cell \<rightharpoonup> rat" where
  "effort_map = [Str ''Low'' \<mapsto> 1, Str ''Medium'' \<mapsto> 5 / 2, Str ''High'' \<mapsto> 5]"

definition hours_of :: "task \<Rightarrow> rat" where
  \<comment> \<open>one term of \<open>pending['Effort'].map(effort_map).sum()\<close>: an effort outside the mapping
      gives \<open>NaN\<close>, which the sum skips\<close>
  "hours_of t = (case effort_map (Effort t) of None \<Rightarrow> 0 | Some h \<Rightarrow> h)"

fun day_of :: "cell \<Rightarrow> int option" where
  "day_of (Day d) = Some d"
| "day_of v = None"

definition nearest_due :: "task list \<Rightarrow> int option" where
  \<comment> \<open>\<open>min([d for d in pending['Due Date'] if not pd.isna(d)])\<close>, for use in
      \<open>nearest_due - date.today()\<close>: nothing where one of the two raises, which is when the
      list is empty or holds a string or a number (\<open>min\<close> cannot compare it with a date, and
      it cannot have a date subtracted from it)\<close>
  "nearest_due pending =
     (case those (map day_of (filter (\<lambda>d. d \<noteq> NA) (map Due_Date pending))) of
        None \<Rightarrow> None
      | Some [] \<Rightarrow> None
      | Some (d # ds) \<Rightarrow> Some (fold min ds d))"

text \<open>
  The sum is exact in floating point (its terms are multiples of one half). The quotient
  and \<open>round(_, 1)\<close> are floating-point operations; their composition is the parameter
  \<open>round1\<close>, applied to the exact quotient. \<open>today\<close> is \<open>date.today()\<close>.
\<close>

definition study_time_suggestions :: "(rat \<Rightarrow> rat) \<Rightarrow> int \<Rightarrow> task list \<Rightarrow> rat option" where
  "study_time_suggestions round1 today df =
     (if df = [] then None
      else
        let pending = filter (\<lambda>t. cell_eq (Status t) (Str ''Pending'')) df in
        if pending = [] then Some 0
        else
          let total_hours = sum_list (map hours_of pending);
              days_remaining = (case nearest_due pending of
                                  Some nearest \<Rightarrow> max 1 (nearest - today)
                                | None \<Rightarrow> 7)
          in Some (round1 (total_hours / of_int days_remaining)))"

section \<open>Sample data\<close>

definition essay :: task where
  "essay = \<lparr>Task_Name = Str ''Essay'', Course = Str ''History'', Due_Date = Day 20000,
            Effort = Str ''High'', Type = Str ''Assignment'', User_Priority = Str ''High'',
            AI_Priority = Str ''High'', Status = Str ''Pending'', Keywords = Str ''essay'',
            Days_Until_Due = Num 3, Actual_AI_Priority = NA, Actual_Effort_Rating = NA,
            Completed_Date = NA\<rparr>"

definition essay_done :: task where
  "essay_done = essay\<lparr>Status := Str ''Completed'', Actual_AI_Priority := Str ''Low'',
                       Actual_Effort_Rating := Str ''Shorter'', Completed_Date := Day 19990\<rparr>"

definition revision :: task where
  "revision = essay\<lparr>Task_Name := Str ''Notes'', Effort := Str ''Medium'', Due_Date := Day 20002\<rparr>"

definition quiz :: task where
  \<comment> \<open>a task as the form adds it for the title Q1, which has no keyword\<close>
  "quiz = essay\<lparr>Task_Name := Str ''Q1'', Keywords := Str ''''\<rparr>"

definition unnamed :: task where
  \<comment> \<open>a task as the form adds it for the title NA\<close>
  "unnamed = essay\<lparr>Task_Name := Str ''NA'', Keywords := Str ''na''\<rparr>"

text \<open>
  The library's behaviour on the sample data: \<open>whole_numbers\<close> reads a column of
  unsigned decimal numerals as numbers and keeps every other column as text;
  \<open>sample_to_datetime\<close> converts a column of missing values and of the ISO texts of the
  sample dates.
\<close>

definition is_numeral :: "string \<Rightarrow> bool" where
  "is_numeral s = (s \<noteq> [] \<and> list_all (\<lambda>c. 48 \<le> ord c \<and> ord c \<le> 57) s)"

definition whole_numbers :: "string list \<Rightarrow> cell list option" where
  "whole_numbers texts =
     (if texts \<noteq> [] \<and> list_all is_numeral texts
      then Some (map (\<lambda>s. Num (int (foldl (\<lambda>n c. 10 * n + (ord c - 48)) 0 s))) texts)
      else None)"

definition sample_dates :: "string \<rightharpoonup> int" where
  "sample_dates = [''2024-09-24'' \<mapsto> 19990, ''2024-10-04'' \<mapsto> 20000, ''2024-10-06'' \<mapsto> 20002]"

fun sample_date :: "cell \<Rightarrow> cell option" where
  "sample_date NA = Some NA"
| "sample_date (Day d) = Some (Day d)"
| "sample_date (Str s) = map_option Day (sample_dates s)"
| "sample_date (Num n) = None"

definition sample_to_datetime :: "cell list \<Rightarrow> cell list option" where
  "sample_to_datetime col = those (map sample_date col)"

definition names_only :: csv_table where
  \<comment> \<open>a task file with a single column\<close>
  "names_only = \<lparr>csv_header = [''Task Name''], csv_rows = [[''Task Name'' \<mapsto> ''Essay'']]\<rparr>"

definition names_fs :: filesystem where
  \<comment> \<open>the task file of \<open>a@b.c\<close> holds the single-column table\<close>
  "names_fs = [''tasks_a_b.c.csv'' \<mapsto> Table names_only]"

definition broken_fs :: filesystem where
  \<comment> \<open>the task file of \<open>a@b.c\<close> cannot be parsed\<close>
  "broken_fs = [''tasks_a_b.c.csv'' \<mapsto> Unreadable]"

definition essay_bare :: task where
  "essay_bare = \<lparr>Task_Name = Str ''Essay'', Course = NA, Due_Date = NA, Effort = NA, Type = NA,
                 User_Priority = NA, AI_Priority = NA, Status = NA, Keywords = NA,
                 Days_Until_Due = NA, Actual_AI_Priority = NA, Actual_Effort_Rating = NA,
                 Completed_Date = NA\<rparr>"

definition null_db :: "string \<Rightarrow> filesystem" where
  \<comment> \<open>the credential file after the email \<open>null\<close> has been registered with the given hash\<close>
  "null_db hashed = save_users Map.empty [\<lparr>cred_email = Str ''null'', cred_password = Str hashed\<rparr>]"

section \<open>Properties of reading and writing\<close>

lemma length_fill [simp]: "length (fill fs vs) = length fs"
  by (induction fs arbitrary: vs) (auto split: list.splits)

lemma fill_missing: "i < length fs \<Longrightarrow> fs ! i \<in> NA_VALUES \<Longrightarrow> fill fs vs ! i = NA"
proof (induction fs arbitrary: vs i)
  case Nil
  then show ?case by simp
next
  case (Cons f fs)
  then show ?case by (cases i) (auto split: list.splits)
qed

lemma length_read_column [simp]: "length (read_column infer fs) = length fs"
  by (simp add: read_column_def split: option.splits)

lemma read_column_missing:
  "i < length fs \<Longrightarrow> fs ! i \<in> NA_VALUES \<Longrightarrow> read_column infer fs ! i = NA"
  by (simp add: read_column_def fill_missing split: option.splits)


lemma columns_read_csv [simp]: "columns (read_csv infer t) = csv_header t"
  by (simp add: read_csv_def)

lemma length_rows_read_csv [simp]: "length (rows (read_csv infer t)) = length (csv_rows t)"
  by (simp add: read_csv_def)

lemma column_read_csv: "column (read_csv infer t) c = file_column infer t c"
  by (rule nth_equalityI) (auto simp: column_def read_csv_def file_column_def cell_at_def)

lemma text_at_to_csv:
  "map (\<lambda>r. text_at r c) (csv_rows (to_csv cs rs)) = map (\<lambda>r. to_text (cell_at r c)) rs"
  by (auto simp: to_csv_def text_at_def cell_at_def to_text_def split: option.splits)

lemma file_column_saved:
  "c \<in> set cols \<Longrightarrow>
   file_column infer (to_csv cols (map row_of_task df)) c = read_column infer (written c df)"
  by (simp add: file_column_def text_at_to_csv written_def field_def comp_def) (simp add: to_csv_def)

lemma read_single_missing: "f \<in> NA_VALUES \<Longrightarrow> read_column infer [f] = [NA]"
  using read_column_missing [of 0 "[f]" infer] length_read_column [of infer "[f]"]
  by (cases "read_column infer [f]") auto

lemma empty_missing [simp]: "[] \<in> NA_VALUES"
  by (simp add: NA_VALUES_def)

lemma to_text_simps [simp]: "to_text NA = []" "to_text (Str s) = s"
  by (simp_all add: to_text_def)

section \<open>Properties of the credential store\<close>

lemma login_user_char:
  assumes "load_users infer fs = Inr users"
  shows "login_user H infer fs email password =
     Inr (\<exists>u \<in> set users. cred_email u = Str (lower (strip email)) \<and> cred_password u = Str (H password))"
  using assms by (auto simp: login_user_def cell_eq_def filter_empty_conv Let_def)

lemma register_user_char:
  assumes "load_users infer fs = Inr users"
  shows "register_user H infer fs email password =
     (if \<exists>u \<in> set users. cred_email u = Str (lower (strip email))
      then Inr ((False, ''User already exists.''), fs)
      else Inr ((True, ''Registered successfully.''),
        save_users fs (users @ [\<lparr>cred_email = Str (lower (strip email)), cred_password = Str (H password)\<rparr>])))"
  using assms by (auto simp: register_user_def cell_eq_def list_ex_iff Let_def)

lemma load_users_empty: "load_users infer Map.empty = Inr []"
  by (simp add: load_users_def)

lemma normalized_null: "lower (strip ''null'') = ''null''"
  by code_simp

lemma null_missing: "''null'' \<in> NA_VALUES"
  by (simp add: NA_VALUES_def)

lemma load_users_null_db:
  "\<exists>p. load_users infer (null_db hashed) = Inr [\<lparr>cred_email = NA, cred_password = p\<rparr>]"
  by (simp add: load_users_def null_db_def save_users_def USER_DB_def read_csv_def to_csv_def
      credential_of_row_def row_of_credential_def cell_at_def text_at_def
      read_single_missing [OF null_missing])

lemma register_null:
  "register_user H infer Map.empty ''null'' password
     = Inr ((True, ''Registered successfully.''), null_db (H password))"
  by (simp add: register_user_char [OF load_users_empty] normalized_null null_db_def)

text \<open>
  C1. After the email \<open>null\<close> has been registered with success, the login with the same
  email and password is refused: the email is written as the text \<open>null\<close>, which
  \<open>read_csv\<close> reads as a missing value, and a missing value equals no email.
\<close>

theorem login_after_register_null:
  "register_user H infer Map.empty ''null'' password
     = Inr ((True, ''Registered successfully.''), null_db (H password))
   \<and> login_user H infer (null_db (H password)) ''null'' password = Inr False"
proof -
  from load_users_null_db [of infer "H password"]
  obtain p where "load_users infer (null_db (H password)) = Inr [\<lparr>cred_email = NA, cred_password = p\<rparr>]"
    by blast
  from login_user_char [OF this, of H "''null''" password]
  have "login_user H infer (null_db (H password)) ''null'' password = Inr False"
    by simp
  with register_null show ?thesis by simp
qed

text \<open>
  C2. The email \<open>null\<close> can be registered twice: after the first registration the stored
  email is read as a missing value, so the second registration finds no credential with
  that email and succeeds as well.
\<close>

theorem register_null_twice:
  "register_user H infer Map.empty ''null'' password
     = Inr ((True, ''Registered successfully.''), null_db (H password))
   \<and> (\<exists>db. register_user H infer (null_db (H password)) ''null'' password'
              = Inr ((True, ''Registered successfully.''), db))"
proof -
  from load_users_null_db [of infer "H password"]
  obtain p where "load_users infer (null_db (H password)) = Inr [\<lparr>cred_email = NA, cred_password = p\<rparr>]"
    by blast
  from register_user_char [OF this, of H "''null''" password']
  have "\<exists>db. register_user H infer (null_db (H password)) ''null'' password'
              = Inr ((True, ''Registered successfully.''), db)"
    by simp
  with register_null show ?thesis by simp
qed

section \<open>Properties of the task store\<close>

lemma cell_at_upd [simp]: "cell_at (r(c \<mapsto> v)) c' = (if c' = c then v else cell_at r c')"
  by (simp add: cell_at_def)

lemma length_column [simp]: "length (column df c) = length (rows df)"
  by (simp add: column_def)

lemma length_file_column [simp]: "length (file_column infer t c) = length (csv_rows t)"
  by (simp add: file_column_def)

lemma length_dates_of [simp]: "length (dates_of to_datetime col) = length col"
  by (simp add: dates_of_def split: option.splits)

lemma fold_ensure_length: "length (rows (fold ensure_column cs df)) = length (rows df)"
  by (induction cs arbitrary: df) (auto simp: ensure_column_def)

lemma fold_ensure_columns: "set (columns (fold ensure_column cs df)) = set (columns df) \<union> set cs"
  by (induction cs arbitrary: df) (auto simp: ensure_column_def)

lemma column_ensure:
  "column (ensure_column a df) c =
     (if c = a \<and> a \<notin> set (columns df) then replicate (length (rows df)) NA else column df c)"
  by (auto simp: ensure_column_def column_def comp_def map_replicate_const)

lemma fold_ensure_column:
  "column (fold ensure_column cs df) c =
     (if c \<in> set cs \<and> c \<notin> set (columns df) then replicate (length (rows df)) NA else column df c)"
proof (induction cs arbitrary: df)
  case Nil
  then show ?case by simp
next
  case (Cons a cs)
  have len: "length (rows (ensure_column a df)) = length (rows df)"
    by (simp add: ensure_column_def)
  have cs': "set (columns (ensure_column a df)) = insert a (set (columns df))"
    by (auto simp: ensure_column_def)
  show ?case
    by (simp add: Cons.IH len cs' column_ensure) (auto simp: column_ensure)
qed

lemma normalize_length: "length (rows (normalize_dates to_datetime c df)) = length (rows df)"
  by (simp add: normalize_dates_def split: option.splits)

lemma normalize_columns: "columns (normalize_dates to_datetime c df) = columns df"
  by (simp add: normalize_dates_def split: option.splits)

lemma column_normalize:
  "column (normalize_dates to_datetime c df) c' =
     (if c' = c \<and> c \<in> set (columns df) then dates_of to_datetime (column df c) else column df c')"
  by (rule nth_equalityI)
    (auto simp: normalize_dates_def column_def dates_of_def split: option.splits)

lemma cell_at_row_of_task:
  "cell_at (row_of_task t) ''Task Name'' = Task_Name t"
  "cell_at (row_of_task t) ''Course'' = Course t"
  "cell_at (row_of_task t) ''Due Date'' = Due_Date t"
  "cell_at (row_of_task t) ''Effort'' = Effort t"
  "cell_at (row_of_task t) ''Type'' = Type t"
  "cell_at (row_of_task t) ''User Priority'' = User_Priority t"
  "cell_at (row_of_task t) ''AI Priority'' = AI_Priority t"
  "cell_at (row_of_task t) ''Status'' = Status t"
  "cell_at (row_of_task t) ''Keywords'' = Keywords t"
  "cell_at (row_of_task t) ''Days Until Due'' = Days_Until_Due t"
  "cell_at (row_of_task t) ''Actual_AI_Priority'' = Actual_AI_Priority t"
  "cell_at (row_of_task t) ''Actual_Effort_Rating'' = Actual_Effort_Rating t"
  "cell_at (row_of_task t) ''Completed Date'' = Completed_Date t"
  by (simp_all add: row_of_task_def cell_at_def)

lemma field_task_of_row: "c \<in> set cols \<Longrightarrow> field c (task_of_row r) = cell_at r c"
  unfolding field_def cols_def by (auto simp: cell_at_row_of_task) (simp_all add: task_of_row_def)

lemma fields_of_rows: "c \<in> set cols \<Longrightarrow> map (field c) (map task_of_row (rows df)) = column df c"
  by (simp add: column_def field_task_of_row)

text \<open>What loading gives for a file that can be read, column by column.\<close>

lemma load_table:
  assumes "fs (get_tasks_filename_for_user email) = Some (Table t)"
  shows "\<exists>tasks. load_tasks_for_user infer to_datetime fs email = Inr tasks
           \<and> length tasks = length (csv_rows t)
           \<and> (\<forall>c \<in> set cols. map (field c) tasks =
                (if c = ''Due Date'' \<or> c = ''Completed Date''
                 then dates_of to_datetime (file_column infer t c) else file_column infer t c))"
proof -
  let ?d0 = "read_csv infer t"
  let ?d1 = "fold ensure_column cols ?d0"
  let ?d2 = "normalize_dates to_datetime ''Due Date'' ?d1"
  let ?d3 = "normalize_dates to_datetime ''Completed Date'' ?d2"
  let ?tasks = "map task_of_row (rows ?d3)"
  have ld: "load_tasks_for_user infer to_datetime fs email = Inr ?tasks"
    using assms by (simp add: load_tasks_for_user_def Let_def)
  have len: "length ?tasks = length (csv_rows t)"
    by (simp add: normalize_length fold_ensure_length)
  have c1: "column ?d1 c = file_column infer t c" if "c \<in> set cols" for c
    using that by (simp add: fold_ensure_column column_read_csv) (simp add: file_column_def)
  have in1: "c \<in> set (columns ?d1)" if "c \<in> set cols" for c
    using that by (simp add: fold_ensure_columns)
  have dd: "''Due Date'' \<in> set cols" and cd: "''Completed Date'' \<in> set cols"
    by (simp_all add: cols_def)
  have c3: "column ?d3 c =
                (if c = ''Due Date'' \<or> c = ''Completed Date''
                 then dates_of to_datetime (file_column infer t c) else file_column infer t c)"
    if c: "c \<in> set cols" for c
    using c1 [OF c] c1 [OF dd] c1 [OF cd] in1 [OF dd] in1 [OF cd]
    by (simp add: column_normalize normalize_columns)
  have "\<forall>c \<in> set cols. map (field c) ?tasks =
                (if c = ''Due Date'' \<or> c = ''Completed Date''
                 then dates_of to_datetime (file_column infer t c) else file_column infer t c)"
    using c3 by (simp add: fields_of_rows del: map_map)
  with ld len show ?thesis by blast
qed


lemma save_file:
  "save_tasks_for_user fs email df (get_tasks_filename_for_user email)
     = Some (Table (to_csv cols (map row_of_task df)))"
  by (simp add: save_tasks_for_user_def)

lemma save_load_columns_basic:
  "\<exists>loaded. load_tasks_for_user infer to_datetime (save_tasks_for_user fs email df) email = Inr loaded
      \<and> length loaded = length df
      \<and> (\<forall>c \<in> set cols. map (field c) loaded =
            (if c = ''Due Date'' \<or> c = ''Completed Date''
             then dates_of to_datetime (read_column infer (written c df))
             else read_column infer (written c df)))"
proof -
  from load_table [where fs = "save_tasks_for_user fs email df" and email = email
      and t = "to_csv cols (map row_of_task df)" and infer = infer and to_datetime = to_datetime,
      OF save_file]
  obtain loaded where ld: "load_tasks_for_user infer to_datetime (save_tasks_for_user fs email df) email = Inr loaded"
    and len: "length loaded = length (csv_rows (to_csv cols (map row_of_task df)))"
    and cs: "\<forall>c \<in> set cols. map (field c) loaded =
                (if c = ''Due Date'' \<or> c = ''Completed Date''
                 then dates_of to_datetime (file_column infer (to_csv cols (map row_of_task df)) c)
                 else file_column infer (to_csv cols (map row_of_task df)) c)"
    by (elim exE conjE)
  from len have "length loaded = length df" by (simp add: to_csv_def)
  moreover from cs have "\<forall>c \<in> set cols. map (field c) loaded =
            (if c = ''Due Date'' \<or> c = ''Completed Date''
             then dates_of to_datetime (read_column infer (written c df))
             else read_column infer (written c df))"
    by (simp add: file_column_saved)
  ultimately show ?thesis using ld by blast
qed


lemma filename_sample: "get_tasks_filename_for_user ''A@b.c'' = ''tasks_a_b.c.csv''"
  by code_simp




text \<open>
  C8, as stated, fails twice. A task file that lacks expected columns is not loaded as an
  empty table: the file of \<open>names_fs\<close> has the column \<open>Task Name\<close> only, and its row is
  loaded. And a file that cannot be parsed makes the loader raise.
\<close>

lemma names_fs_file: "names_fs (get_tasks_filename_for_user ''A@b.c'') = Some (Table names_only)"
  by (simp add: filename_sample names_fs_def)

lemma broken_fs_file: "broken_fs (get_tasks_filename_for_user ''A@b.c'') = Some Unreadable"
  by (simp add: filename_sample broken_fs_def)

theorem load_missing_columns_counterexample:
  "names_fs (get_tasks_filename_for_user ''A@b.c'') = Some (Table names_only)
   \<and> ''Course'' \<notin> set (csv_header names_only)
   \<and> load_tasks_for_user whole_numbers sample_to_datetime names_fs ''A@b.c'' \<noteq> Inr []
   \<and> broken_fs (get_tasks_filename_for_user ''A@b.c'') = Some Unreadable
   \<and> load_tasks_for_user whole_numbers sample_to_datetime broken_fs ''A@b.c'' = Inl ParserError"
proof -
  from load_table [where fs = names_fs and email = "''A@b.c''" and t = names_only
      and infer = whole_numbers and to_datetime = sample_to_datetime, OF names_fs_file]
  obtain tasks where "load_tasks_for_user whole_numbers sample_to_datetime names_fs ''A@b.c'' = Inr tasks"
    and "length tasks = length (csv_rows names_only)"
    by (elim exE conjE)
  then have "load_tasks_for_user whole_numbers sample_to_datetime names_fs ''A@b.c'' \<noteq> Inr []"
    by (auto simp: names_only_def)
  moreover have "load_tasks_for_user whole_numbers sample_to_datetime broken_fs ''A@b.c'' = Inl ParserError"
    using broken_fs_file by (simp add: load_tasks_for_user_def)
  moreover have "''Course'' \<notin> set (csv_header names_only)"
    by (simp add: names_only_def)
  ultimately show ?thesis using names_fs_file broken_fs_file by simp
qed

text \<open>
  C8, amended. If the user's file is missing, \<open>load_tasks_for_user\<close> returns the empty
  table. If the file cannot be parsed, it raises. Otherwise it returns one task per record
  of the file, in order, with the thirteen fields; each column of the result is what
  \<open>read_csv\<close> reads under that column, or missing values if the file has no such column,
  and for the two date columns the conversion of that by \<open>pd.to_datetime\<close> when it
  converts the whole column, and the column as read when it raises. So a field whose
  column the file lacks is unset (for a date column, as \<open>pd.to_datetime\<close> leaves a column
  of missing values missing).
\<close>

theorem load_tasks_columns:
  "(fs (get_tasks_filename_for_user email) = None \<longrightarrow>
      load_tasks_for_user infer to_datetime fs email = Inr [])
   \<and> (fs (get_tasks_filename_for_user email) = Some Unreadable \<longrightarrow>
      load_tasks_for_user infer to_datetime fs email = Inl ParserError)
   \<and> (\<forall>t. fs (get_tasks_filename_for_user email) = Some (Table t) \<longrightarrow>
        (\<exists>tasks. load_tasks_for_user infer to_datetime fs email = Inr tasks
           \<and> length tasks = length (csv_rows t)
           \<and> (\<forall>c \<in> set cols. map (field c) tasks =
                (if c = ''Due Date'' \<or> c = ''Completed Date''
                 then dates_of to_datetime (file_column infer t c) else file_column infer t c))
           \<and> (\<forall>c \<in> set cols. c \<notin> set (csv_header t) \<longrightarrow>
                (c \<noteq> ''Due Date'' \<and> c \<noteq> ''Completed Date'' \<longrightarrow> (\<forall>u \<in> set tasks. field c u = NA))
              \<and> (to_datetime (replicate (length (csv_rows t)) NA) = None
                  \<or> to_datetime (replicate (length (csv_rows t)) NA)
                       = Some (replicate (length (csv_rows t)) NA)
                  \<longrightarrow> (\<forall>u \<in> set tasks. field c u = NA)))))"
proof (intro conjI allI impI)
  assume "fs (get_tasks_filename_for_user email) = None"
  then show "load_tasks_for_user infer to_datetime fs email = Inr []"
    by (simp add: load_tasks_for_user_def)
next
  assume "fs (get_tasks_filename_for_user email) = Some Unreadable"
  then show "load_tasks_for_user infer to_datetime fs email = Inl ParserError"
    by (simp add: load_tasks_for_user_def)
next
  fix t
  assume f: "fs (get_tasks_filename_for_user email) = Some (Table t)"
  let ?n = "length (csv_rows t)"
  from load_table [where fs = fs and email = email and t = t
      and infer = infer and to_datetime = to_datetime, OF f]
  obtain tasks where ld: "load_tasks_for_user infer to_datetime fs email = Inr tasks"
    and len: "length tasks = ?n"
    and cs: "\<forall>c \<in> set cols. map (field c) tasks =
                (if c = ''Due Date'' \<or> c = ''Completed Date''
                 then dates_of to_datetime (file_column infer t c) else file_column infer t c)"
    by (elim exE conjE)
  have all_na: "\<forall>u \<in> set tasks. field c u = NA" if "map (field c) tasks = replicate ?n NA" for c
  proof
    fix u assume "u \<in> set tasks"
    then have "field c u \<in> set (map (field c) tasks)" by simp
    then show "field c u = NA" unfolding that by simp
  qed
  have miss: "file_column infer t c = replicate ?n NA" if "c \<notin> set (csv_header t)" for c
    using that by (simp add: file_column_def)
  have m1: "\<forall>u \<in> set tasks. field c u = NA"
    if "c \<in> set cols" "c \<notin> set (csv_header t)" "c \<noteq> ''Due Date'' \<and> c \<noteq> ''Completed Date''" for c
    using cs that by (intro all_na) (simp add: miss)
  have m2: "\<forall>u \<in> set tasks. field c u = NA"
    if "c \<in> set cols" "c \<notin> set (csv_header t)"
      "to_datetime (replicate ?n NA) = None \<or> to_datetime (replicate ?n NA) = Some (replicate ?n NA)" for c
  proof (intro all_na)
    have "dates_of to_datetime (replicate ?n NA) = replicate ?n NA"
      using that(3) by (auto simp: dates_of_def intro: nth_equalityI)
    with cs that(1,2) show "map (field c) tasks = replicate ?n NA"
      by (simp add: miss)
  qed
  have M: "\<forall>c \<in> set cols. c \<notin> set (csv_header t) \<longrightarrow>
                (c \<noteq> ''Due Date'' \<and> c \<noteq> ''Completed Date'' \<longrightarrow> (\<forall>u \<in> set tasks. field c u = NA))
              \<and> (to_datetime (replicate ?n NA) = None
                  \<or> to_datetime (replicate ?n NA) = Some (replicate ?n NA)
                  \<longrightarrow> (\<forall>u \<in> set tasks. field c u = NA))"
  proof (intro ballI impI conjI)
    fix c u assume "c \<in> set cols" "c \<notin> set (csv_header t)"
      "c \<noteq> ''Due Date'' \<and> c \<noteq> ''Completed Date''" "u \<in> set tasks"
    then show "field c u = NA" using m1 [of c] by blast
  next
    fix c u assume "c \<in> set cols" "c \<notin> set (csv_header t)"
      "to_datetime (replicate ?n NA) = None \<or> to_datetime (replicate ?n NA) = Some (replicate ?n NA)"
      "u \<in> set tasks"
    then show "field c u = NA" using m2 [of c] by blast
  qed
  show "\<exists>tasks. load_tasks_for_user infer to_datetime fs email = Inr tasks
           \<and> length tasks = length (csv_rows t)
           \<and> (\<forall>c \<in> set cols. map (field c) tasks =
                (if c = ''Due Date'' \<or> c = ''Completed Date''
                 then dates_of to_datetime (file_column infer t c) else file_column infer t c))
           \<and> (\<forall>c \<in> set cols. c \<notin> set (csv_header t) \<longrightarrow>
                (c \<noteq> ''Due Date'' \<and> c \<noteq> ''Completed Date'' \<longrightarrow> (\<forall>u \<in> set tasks. field c u = NA))
              \<and> (to_datetime (replicate (length (csv_rows t)) NA) = None
                  \<or> to_datetime (replicate (length (csv_rows t)) NA)
                       = Some (replicate (length (csv_rows t)) NA)
                  \<longrightarrow> (\<forall>u \<in> set tasks. field c u = NA)))"
    by (rule exI [of _ tasks]) (intro conjI ld len cs M)
qed





lemma load_names_fs:
  "load_tasks_for_user whole_numbers sample_to_datetime names_fs ''A@b.c'' = Inr [essay_bare]"
  by code_simp

lemma names_hyps:
  "sample_to_datetime (replicate (length (csv_rows names_only)) NA)
     = Some (replicate (length (csv_rows names_only)) NA)"
  "''Course'' \<in> set cols" "''Due Date'' \<in> set cols"
  "''Course'' \<notin> set (csv_header names_only)" "''Due Date'' \<notin> set (csv_header names_only)"
  by code_simp+

theorem load_tasks_columns_witness:
  "load_tasks_for_user whole_numbers sample_to_datetime Map.empty ''A@b.c'' = Inr []
   \<and> broken_fs (get_tasks_filename_for_user ''A@b.c'') = Some Unreadable
   \<and> load_tasks_for_user whole_numbers sample_to_datetime broken_fs ''A@b.c'' = Inl ParserError
   \<and> names_fs (get_tasks_filename_for_user ''A@b.c'') = Some (Table names_only)
   \<and> load_tasks_for_user whole_numbers sample_to_datetime names_fs ''A@b.c'' = Inr [essay_bare]
   \<and> length [essay_bare] = length (csv_rows names_only)
   \<and> ''Course'' \<notin> set (csv_header names_only) \<and> field ''Course'' essay_bare = NA
   \<and> ''Due Date'' \<notin> set (csv_header names_only)
   \<and> sample_to_datetime (replicate (length (csv_rows names_only)) NA)
       = Some (replicate (length (csv_rows names_only)) NA)
   \<and> field ''Due Date'' essay_bare = NA"
proof -
  have a: "load_tasks_for_user whole_numbers sample_to_datetime Map.empty ''A@b.c'' = Inr []"
    using load_tasks_columns [of Map.empty "''A@b.c''" whole_numbers sample_to_datetime] by simp
  have b: "load_tasks_for_user whole_numbers sample_to_datetime broken_fs ''A@b.c'' = Inl ParserError"
    using load_tasks_columns [of broken_fs "''A@b.c''" whole_numbers sample_to_datetime] broken_fs_file
    by simp
  from load_tasks_columns [of names_fs "''A@b.c''" whole_numbers sample_to_datetime,
      THEN conjunct2, THEN conjunct2, rule_format, OF names_fs_file]
  obtain tasks where t: "load_tasks_for_user whole_numbers sample_to_datetime names_fs ''A@b.c'' = Inr tasks"
    and l: "length tasks = length (csv_rows names_only)"
    and m: "\<forall>c \<in> set cols. c \<notin> set (csv_header names_only) \<longrightarrow>
                (c \<noteq> ''Due Date'' \<and> c \<noteq> ''Completed Date'' \<longrightarrow> (\<forall>u \<in> set tasks. field c u = NA))
              \<and> (sample_to_datetime (replicate (length (csv_rows names_only)) NA) = None
                  \<or> sample_to_datetime (replicate (length (csv_rows names_only)) NA)
                       = Some (replicate (length (csv_rows names_only)) NA)
                  \<longrightarrow> (\<forall>u \<in> set tasks. field c u = NA))"
    by (elim exE conjE)
  from t load_names_fs have tasks: "tasks = [essay_bare]" by simp
  from l have len: "length [essay_bare] = length (csv_rows names_only)"
    unfolding tasks .
  from m [rule_format, OF names_hyps(2) names_hyps(4), THEN conjunct1]
  have c1: "field ''Course'' essay_bare = NA"
    by (simp add: tasks)
  from m [rule_format, OF names_hyps(3) names_hyps(5), THEN conjunct2] names_hyps(1)
  have c2: "field ''Due Date'' essay_bare = NA"
    by (simp add: tasks)
  from a b broken_fs_file names_fs_file load_names_fs len names_hyps(4) c1 names_hyps(5) names_hyps(1) c2
  show ?thesis by (intro conjI)
qed

section \<open>Properties of the action center\<close>

lemma first_index_Some:
  "first_index P xs = Some i \<Longrightarrow> i < length xs \<and> P (xs ! i) \<and> (\<forall>j < i. \<not> P (xs ! j))"
proof (induction xs arbitrary: i)
  case Nil
  then show ?case by simp
next
  case (Cons x xs)
  show ?case
  proof (cases "P x")
    case True
    with Cons.prems show ?thesis by simp
  next
    case False
    with Cons.prems obtain k where k: "first_index P xs = Some k" and i: "i = Suc k"
      by auto
    from Cons.IH [OF k] False i show ?thesis
      by (auto simp: nth_Cons split: nat.splits)
  qed
qed

lemma sample_fields:
  "Task_Name essay = Str ''Essay''" "Status essay = Str ''Pending''"
  "Task_Name essay_done = Str ''Essay''" "Status essay_done = Str ''Completed''"
  "Task_Name revision = Str ''Notes''" "Status revision = Str ''Pending''"
  by (simp_all add: essay_def essay_done_def revision_def)

text \<open>
  C10. When the completion form succeeds, the table keeps its length and order; exactly
  one row, the selected one, is replaced by itself with Status, Actual\_AI\_Priority,
  Actual\_Effort\_Rating and Completed Date set, so its other nine fields are as before;
  every other row is unchanged.
\<close>

theorem complete_form_frame:
  assumes "complete_form fs user_email today df choice actual_priority actual_effort = Inr (fs', df')"
  shows "length df' = length df
       \<and> (\<exists>idx < length df.
             df' ! idx = (df ! idx)\<lparr>Status := Str ''Completed'',
                                      Actual_AI_Priority := Str actual_priority,
                                      Actual_Effort_Rating := Str actual_effort,
                                      Completed_Date := Day today\<rparr>
           \<and> Task_Name (df' ! idx) = Task_Name (df ! idx)
           \<and> Course (df' ! idx) = Course (df ! idx)
           \<and> Due_Date (df' ! idx) = Due_Date (df ! idx)
           \<and> Effort (df' ! idx) = Effort (df ! idx)
           \<and> Type (df' ! idx) = Type (df ! idx)
           \<and> User_Priority (df' ! idx) = User_Priority (df ! idx)
           \<and> AI_Priority (df' ! idx) = AI_Priority (df ! idx)
           \<and> Keywords (df' ! idx) = Keywords (df ! idx)
           \<and> Days_Until_Due (df' ! idx) = Days_Until_Due (df ! idx)
           \<and> (\<forall>j < length df. j \<noteq> idx \<longrightarrow> df' ! j = df ! j))"
proof -
  from assms obtain idx where
    idx: "first_index (\<lambda>t. cell_eq (Task_Name t) choice) df = Some idx"
    and df': "df' = df[idx := (df ! idx)\<lparr>Status := Str ''Completed'',
                                      Actual_AI_Priority := Str actual_priority,
                                      Actual_Effort_Rating := Str actual_effort,
                                      Completed_Date := Day today\<rparr>]"
    by (auto simp: complete_form_def Let_def split: if_splits option.splits)
  from first_index_Some [OF idx] have lt: "idx < length df" by simp
  have "length df' = length df" by (simp add: df')
  moreover have "df' ! idx = (df ! idx)\<lparr>Status := Str ''Completed'',
                                      Actual_AI_Priority := Str actual_priority,
                                      Actual_Effort_Rating := Str actual_effort,
                                      Completed_Date := Day today\<rparr>"
    using lt by (simp add: df')
  moreover have "\<forall>j < length df. j \<noteq> idx \<longrightarrow> df' ! j = df ! j"
    by (simp add: df')
  ultimately show ?thesis using lt by auto
qed

lemma complete_sample:
  "complete_form Map.empty ''A@b.c'' 20001 [revision, essay] (Str ''Essay'') ''High'' ''Longer''
     = Inr (save_tasks_for_user Map.empty ''A@b.c''
              [revision, essay\<lparr>Status := Str ''Completed'', Actual_AI_Priority := Str ''High'',
                  Actual_Effort_Rating := Str ''Longer'', Completed_Date := Day 20001\<rparr>],
            [revision, essay\<lparr>Status := Str ''Completed'', Actual_AI_Priority := Str ''High'',
                  Actual_Effort_Rating := Str ''Longer'', Completed_Date := Day 20001\<rparr>])"
  by (simp add: complete_form_def pending_of_def cell_eq_def sample_fields Let_def)

theorem complete_form_frame_witness:
  "complete_form Map.empty ''A@b.c'' 20001 [revision, essay] (Str ''Essay'') ''High'' ''Longer''
     = Inr (save_tasks_for_user Map.empty ''A@b.c''
              [revision, essay\<lparr>Status := Str ''Completed'', Actual_AI_Priority := Str ''High'',
                  Actual_Effort_Rating := Str ''Longer'', Completed_Date := Day 20001\<rparr>],
            [revision, essay\<lparr>Status := Str ''Completed'', Actual_AI_Priority := Str ''High'',
                  Actual_Effort_Rating := Str ''Longer'', Completed_Date := Day 20001\<rparr>])
   \<and> length [revision, essay\<lparr>Status := Str ''Completed'', Actual_AI_Priority := Str ''High'',
                  Actual_Effort_Rating := Str ''Longer'', Completed_Date := Day 20001\<rparr>]
       = length [revision, essay]
   \<and> (\<exists>idx < length [revision, essay].
         Task_Name ([revision, essay\<lparr>Status := Str ''Completed'', Actual_AI_Priority := Str ''High'',
                  Actual_Effort_Rating := Str ''Longer'', Completed_Date := Day 20001\<rparr>] ! idx)
           = Task_Name ([revision, essay] ! idx))"
proof -
  from complete_form_frame [OF complete_sample]
  obtain idx where "idx < length [revision, essay]"
    and "Task_Name ([revision, essay\<lparr>Status := Str ''Completed'', Actual_AI_Priority := Str ''High'',
                  Actual_Effort_Rating := Str ''Longer'', Completed_Date := Day 20001\<rparr>] ! idx)
           = Task_Name ([revision, essay] ! idx)"
    by (elim exE conjE)
  then have "\<exists>idx < length [revision, essay].
         Task_Name ([revision, essay\<lparr>Status := Str ''Completed'', Actual_AI_Priority := Str ''High'',
                  Actual_Effort_Rating := Str ''Longer'', Completed_Date := Day 20001\<rparr>] ! idx)
           = Task_Name ([revision, essay] ! idx)"
    by (intro exI conjI)
  with complete_sample show ?thesis by simp
qed

text \<open>
  C4. The completion form picks the first row whose name is the chosen one, whatever its
  status. With a completed task and a pending task of the same name, in this order, the
  completed row is written again and the pending task stays pending.
\<close>

theorem complete_form_first_name_match:
  "Status essay_done = Str ''Completed'' \<and> Status essay = Str ''Pending''
   \<and> Task_Name essay_done = Task_Name essay
   \<and> complete_form Map.empty ''A@b.c'' 20001 [essay_done, essay] (Str ''Essay'') ''High'' ''Longer''
     = Inr (save_tasks_for_user Map.empty ''A@b.c''
              [essay_done\<lparr>Actual_AI_Priority := Str ''High'',
                  Actual_Effort_Rating := Str ''Longer'', Completed_Date := Day 20001\<rparr>, essay],
            [essay_done\<lparr>Actual_AI_Priority := Str ''High'',
                  Actual_Effort_Rating := Str ''Longer'', Completed_Date := Day 20001\<rparr>, essay])"
  by (simp add: complete_form_def pending_of_def cell_eq_def sample_fields Let_def essay_done_def)

lemma na_missing: "''NA'' \<in> NA_VALUES"
  by (simp add: NA_VALUES_def)

lemma name_unnamed: "field ''Task Name'' unnamed = Str ''NA''"
  by (simp add: field_def cell_at_row_of_task unnamed_def)

lemma load_unnamed:
  "\<exists>t. load_tasks_for_user infer to_datetime (save_tasks_for_user fs email [unnamed]) email = Inr [t]
       \<and> Task_Name t = NA"
proof -
  from save_load_columns_basic [of infer to_datetime fs email "[unnamed]"]
  obtain loaded where ld: "load_tasks_for_user infer to_datetime (save_tasks_for_user fs email [unnamed]) email = Inr loaded"
    and len: "length loaded = length [unnamed]"
    and cs: "\<forall>c \<in> set cols. map (field c) loaded =
            (if c = ''Due Date'' \<or> c = ''Completed Date''
             then dates_of to_datetime (read_column infer (written c [unnamed]))
             else read_column infer (written c [unnamed]))"
    by (elim exE conjE)
  from len obtain t where loaded: "loaded = [t]"
    by (cases loaded) auto
  have k: "''Task Name'' \<in> set cols" by (simp add: cols_def)
  from cs [rule_format, OF k]
  have "map (field ''Task Name'') loaded = read_column infer (written ''Task Name'' [unnamed])"
    by simp
  also have "\<dots> = [NA]"
    by (simp add: written_def name_unnamed read_single_missing [OF na_missing])
  finally have "Task_Name t = NA"
    by (simp add: loaded field_def cell_at_row_of_task)
  with ld loaded show ?thesis by blast
qed

lemma delete_missing_name:
  "Task_Name t = NA \<Longrightarrow>
   delete_task fs email [t] (Task_Name t) = (save_tasks_for_user fs email [t], [t])"
  by (simp add: delete_task_def cell_eq_def Let_def)

text \<open>
  C9. A task whose name is missing cannot be deleted. The task that the form adds for the
  title NA is written with the name \<open>NA\<close>, which \<open>read_csv\<close> reads as a missing value; when
  that task is chosen for deletion, the comparison of the names with the missing value
  keeps every row, and the table is saved unchanged with the task still in it.
\<close>

theorem delete_task_missing_name:
  "\<exists>t. load_tasks_for_user infer to_datetime (save_tasks_for_user fs email [unnamed]) email = Inr [t]
       \<and> Task_Name t = NA
       \<and> delete_task fs' email [t] (Task_Name t) = (save_tasks_for_user fs' email [t], [t])"
proof -
  from load_unnamed [of infer to_datetime fs email]
  obtain t where "load_tasks_for_user infer to_datetime (save_tasks_for_user fs email [unnamed]) email = Inr [t]"
    and "Task_Name t = NA"
    by blast
  with delete_missing_name [of t fs' email] show ?thesis by blast
qed

section \<open>Properties of the derived fields and of the suggestion\<close>

lemma days_after_midnight:
  assumes "0 < now mod day_us"
  shows "calculate_days_until_due fromisoformat now (Day (now div day_us + 5)) = Inr (Some 4)"
proof -
  have d: "day_us = 86400000000" by (simp add: day_us_def)
  have "(now div day_us + 5) * day_us - now = 4 * day_us + (day_us - now mod day_us)"
    by (simp add: algebra_simps minus_mod_eq_mult_div [symmetric])
  moreover have "0 \<le> day_us - now mod day_us" "day_us - now mod day_us < day_us"
    using assms by (simp_all add: d)
  ultimately have "((now div day_us + 5) * day_us - now) div day_us = 4"
    by (simp add: d)
  then show ?thesis
    by (simp add: calculate_days_until_due_def)
qed

text \<open>
  C5. At noon, a task due in five days has four days until due: the due date is taken at
  midnight and the current instant has a time of day, so the difference is four days and
  twelve hours, of which \<open>timedelta.days\<close> keeps four.
\<close>

theorem calculate_days_until_due_at_noon:
  "calculate_days_until_due Map.empty (19995 * day_us + 43200000000) (Day (19995 + 5)) = Inr (Some 4)"
  by (simp add: calculate_days_until_due_def day_us_def)

lemma those_day_of: "those (map day_of cs) = Some ds \<longleftrightarrow> cs = map Day ds"
proof (induction cs arbitrary: ds)
  case Nil
  then show ?case by auto
next
  case (Cons c cs)
  show ?case
  proof (cases c)
    case (Day d)
    with Cons.IH show ?thesis by (cases ds) (auto split: option.splits)
  qed (auto split: option.splits)
qed

lemma hours_of_cases:
  "hours_of t = (if Effort t = Str ''Low'' then 1 else if Effort t = Str ''Medium'' then 5 / 2
                 else if Effort t = Str ''High'' then 5 else 0)"
  by (simp add: hours_of_def effort_map_def)

lemma nearest_due_dates:
  assumes "ds \<noteq> []" and "filter (\<lambda>d. d \<noteq> NA) (map Due_Date pending) = map Day ds"
  shows "nearest_due pending = Some (Min (set ds))"
proof -
  have th: "those (map day_of (filter (\<lambda>d. d \<noteq> NA) (map Due_Date pending))) = Some ds"
    unfolding those_day_of by (rule assms(2))
  from assms(1) obtain d ds' where ds: "ds = d # ds'" by (cases ds) auto
  show ?thesis
    unfolding nearest_due_def th using Min.set_eq_fold [of d ds'] by (simp add: ds)
qed

lemma nearest_due_none:
  assumes "\<not> (\<exists>ds. ds \<noteq> [] \<and> filter (\<lambda>d. d \<noteq> NA) (map Due_Date pending) = map Day ds)"
  shows "nearest_due pending = None"
proof (cases "those (map day_of (filter (\<lambda>d. d \<noteq> NA) (map Due_Date pending)))")
  case None
  then show ?thesis by (simp add: nearest_due_def)
next
  case (Some ds)
  then have "filter (\<lambda>d. d \<noteq> NA) (map Due_Date pending) = map Day ds"
    by (simp add: those_day_of)
  with assms have "ds = []" by blast
  with Some show ?thesis by (simp add: nearest_due_def)
qed

text \<open>
  C7. \<open>study_time_suggestions\<close> is absent for an empty table and 0 for a table with no
  pending task. Otherwise it is the rounding of the quotient of the summed hours of the
  pending tasks (Low 1, Medium 2.5, High 5, anything else 0) by the divisor: the days from
  today to the earliest due date of the pending tasks, at least 1, when the due dates
  that are set are all dates and there is one; and 7 when there is none or one of them
  is not a date.
\<close>

theorem study_time_suggestions_spec:
  assumes "pending = filter (\<lambda>t. Status t = Str ''Pending'') df"
    and "hours = (\<Sum>t \<leftarrow> pending. if Effort t = Str ''Low'' then 1
                          else if Effort t = Str ''Medium'' then 5 / 2
                          else if Effort t = Str ''High'' then 5 else 0)"
  shows "(df = [] \<longrightarrow> study_time_suggestions rnd today df = None)
       \<and> (df \<noteq> [] \<and> pending = [] \<longrightarrow> study_time_suggestions rnd today df = Some 0)
       \<and> (pending \<noteq> [] \<longrightarrow>
            (\<forall>ds. ds \<noteq> [] \<and> filter (\<lambda>d. d \<noteq> NA) (map Due_Date pending) = map Day ds \<longrightarrow>
                study_time_suggestions rnd today df
                  = Some (rnd (hours / of_int (max 1 (Min (set ds) - today)))))
          \<and> (\<not> (\<exists>ds. ds \<noteq> [] \<and> filter (\<lambda>d. d \<noteq> NA) (map Due_Date pending) = map Day ds) \<longrightarrow>
                study_time_suggestions rnd today df = Some (rnd (hours / 7))))"
proof -
  have p: "filter (\<lambda>t. cell_eq (Status t) (Str ''Pending'')) df = pending"
    unfolding assms(1) by (rule filter_cong) (auto simp: cell_eq_def)
  have t: "sum_list (map hours_of pending) = hours"
    unfolding assms(2) by (rule arg_cong [where f = sum_list]) (simp add: hours_of_cases)
  have a: "df = [] \<longrightarrow> study_time_suggestions rnd today df = None"
    by (simp add: study_time_suggestions_def)
  have b: "df \<noteq> [] \<and> pending = [] \<longrightarrow> study_time_suggestions rnd today df = Some 0"
    by (simp add: study_time_suggestions_def p)
  have ne: "df \<noteq> []" if "pending \<noteq> []" using that assms(1) by auto
  have c: "study_time_suggestions rnd today df
                  = Some (rnd (hours / of_int (max 1 (Min (set ds) - today))))"
    if "pending \<noteq> []" "ds \<noteq> []" "filter (\<lambda>d. d \<noteq> NA) (map Due_Date pending) = map Day ds" for ds
    using that ne by (simp add: study_time_suggestions_def p t nearest_due_dates Let_def)
  have d: "study_time_suggestions rnd today df = Some (rnd (hours / 7))"
    if "pending \<noteq> []"
      "\<not> (\<exists>ds. ds \<noteq> [] \<and> filter (\<lambda>d. d \<noteq> NA) (map Due_Date pending) = map Day ds)"
    using that(1) ne nearest_due_none [OF that(2)]
    by (simp add: study_time_suggestions_def p t Let_def)
  from a b c d show ?thesis by blast
qed

theorem study_time_suggestions_spec_witness:
  "study_time_suggestions id 19997 [] = None
   \<and> study_time_suggestions id 19997 [essay_done] = Some 0
   \<and> study_time_suggestions id 19997 [essay_done, essay, revision] = Some (5 / 2)
   \<and> study_time_suggestions id 19997 [essay\<lparr>Due_Date := Str ''soon''\<rparr>] = Some (5 / 7)"
proof -
  have a: "study_time_suggestions id 19997 [] = None"
    using study_time_suggestions_spec [where rnd = id and today = 19997 and df = "[]", OF refl refl] by simp
  have b: "study_time_suggestions id 19997 [essay_done] = Some 0"
    using study_time_suggestions_spec [where rnd = id and today = 19997 and df = "[essay_done]", OF refl refl]
    by (simp add: essay_done_def essay_def)
  have c: "study_time_suggestions id 19997 [essay_done, essay, revision] = Some (5 / 2)"
    using study_time_suggestions_spec [where rnd = id and today = 19997 and df = "[essay_done, essay, revision]", OF refl refl,
        THEN conjunct2, THEN conjunct2, THEN mp, THEN conjunct1, THEN spec [where x = "[20000, 20002]"]]
    by (simp add: essay_done_def essay_def revision_def)
  have "\<not> (\<exists>ds. ds \<noteq> [] \<and> [Str ''soon''] = map Day ds)"
    by (auto simp: map_eq_Cons_conv)
  then have d: "study_time_suggestions id 19997 [essay\<lparr>Due_Date := Str ''soon''\<rparr>] = Some (5 / 7)"
    using study_time_suggestions_spec [where rnd = id and today = 19997 and df = "[essay\<lparr>Due_Date := Str ''soon''\<rparr>]", OF refl refl,
        THEN conjunct2, THEN conjunct2, THEN mp, THEN conjunct2]
    by (simp add: essay_def)
  from a b c d show ?thesis by simp
qed

section \<open>Properties of the keyword extraction\<close>

lemma az_word: "is_az c \<Longrightarrow> is_word c"
  by (auto simp: is_az_def is_word_def is_alnum_def)

lemma runs_agree_closed:
  "dropWhile is_az xs = [] \<or> \<not> is_word (hd (dropWhile is_az xs)) \<Longrightarrow>
   takeWhile is_word xs = takeWhile is_az xs \<and> dropWhile is_word xs = dropWhile is_az xs"
  by (induction xs) (auto simp: az_word split: if_splits)

lemma runs_agree_az:
  "list_all is_az (takeWhile is_word xs) \<Longrightarrow>
   takeWhile is_az xs = takeWhile is_word xs \<and> dropWhile is_az xs = dropWhile is_word xs"
  by (induction xs) (auto simp: az_word split: if_splits)

lemma dropWhile_word_end:
  "dropWhile is_word xs = [] \<or> \<not> is_word (hd (dropWhile is_word xs))"
  by (induction xs) auto

lemma dropWhile_closed: "xs = [] \<or> \<not> P (hd xs) \<Longrightarrow> dropWhile P xs = xs"
  by (cases xs) auto

lemma word_runs_word:
  "is_word c \<Longrightarrow>
   word_runs (c # cs) = takeWhile is_word (c # cs) # word_runs (dropWhile is_word (c # cs))"
  by (simp del: takeWhile.simps dropWhile.simps)

lemma word_runs_skip: "\<not> is_word c \<Longrightarrow> word_runs (c # cs) = word_runs cs"
  by simp

lemma findall_words_runs:
  "findall_words prev_word s =
     filter is_token (word_runs (if prev_word then dropWhile is_word s else s))"
proof (induction prev_word s rule: findall_words.induct)
  case (1 prev_word)
  then show ?case by simp
next
  case (2 prev_word c cs)
  define run where "run = takeWhile is_az (c # cs)"
  define rest where "rest = dropWhile is_az (c # cs)"
  define matches where
    "matches \<longleftrightarrow> \<not> prev_word \<and> 2 \<le> length run \<and> (rest = [] \<or> \<not> is_word (hd rest))"
  have unfold: "findall_words prev_word (c # cs) =
      (if matches then run # findall_words True rest else findall_words (is_word c) cs)"
    unfolding matches_def run_def rest_def by (rule findall_words.simps(2))
  show ?case
  proof (cases matches)
    case True
    then have np: "\<not> prev_word" and len: "2 \<le> length run"
      and closed: "rest = [] \<or> \<not> is_word (hd rest)"
      by (simp_all add: matches_def)
    from closed runs_agree_closed [of "c # cs"]
    have tw: "takeWhile is_word (c # cs) = run" and dw: "dropWhile is_word (c # cs) = rest"
      unfolding run_def rest_def by blast+
    have "run \<noteq> []" using len by auto
    then have az: "is_az c" unfolding run_def by (auto split: if_splits)
    have "\<forall>x \<in> set run. is_az x" unfolding run_def by (blast dest: set_takeWhileD)
    with len have tok: "is_token run" by (simp add: is_token_def list_all_iff)
    have ih: "findall_words True rest = filter is_token (word_runs (dropWhile is_word rest))"
      using "2.IH"(1) True unfolding matches_def run_def rest_def by simp
    have "findall_words prev_word (c # cs) = run # filter is_token (word_runs rest)"
      by (simp only: unfold True if_True ih dropWhile_closed [of rest is_word, OF closed])
    also have "\<dots> = filter is_token (word_runs (c # cs))"
      by (simp only: word_runs_word [OF az_word [OF az]] tw dw tok filter.simps if_True)
    finally show ?thesis using np by (simp del: findall_words.simps word_runs.simps)
  next
    case False
    then have step: "findall_words prev_word (c # cs) = findall_words (is_word c) cs"
      by (simp only: unfold if_False)
    have ih: "findall_words (is_word c) cs =
        filter is_token (word_runs (if is_word c then dropWhile is_word cs else cs))"
      using "2.IH"(2) False unfolding matches_def run_def rest_def by blast
    show ?thesis
    proof (cases "is_word c")
      case nw: False
      then show ?thesis using ih step by (simp add: word_runs_skip del: word_runs.simps findall_words.simps)
    next
      case w: True
      show ?thesis
      proof (cases prev_word)
        case True
        then show ?thesis using w ih step by (simp del: word_runs.simps findall_words.simps)
      next
        case np: False
        have "\<not> is_token (takeWhile is_word (c # cs))"
        proof
          assume tok: "is_token (takeWhile is_word (c # cs))"
          then have "list_all is_az (takeWhile is_word (c # cs))" by (simp add: is_token_def)
          from runs_agree_az [OF this]
          have tw: "run = takeWhile is_word (c # cs)" and dw: "rest = dropWhile is_word (c # cs)"
            unfolding run_def rest_def by blast+
          from tok have "2 \<le> length run" unfolding tw by (simp add: is_token_def)
          moreover have "rest = [] \<or> \<not> is_word (hd rest)"
            unfolding dw by (rule dropWhile_word_end)
          ultimately show False using False np by (simp add: matches_def)
        qed
        moreover have "dropWhile is_word (c # cs) = dropWhile is_word cs"
          using w by simp
        ultimately show ?thesis
          using np w ih step by (simp add: word_runs_word [OF w] del: takeWhile.simps dropWhile.simps word_runs.simps findall_words.simps)
      qed
    qed
  qed
qed

lemma token_isalnum: "is_token w \<Longrightarrow> isalnum w"
  by (auto simp: is_token_def isalnum_def is_az_def is_alnum_def list_all_iff)

lemma extract_keywords_simple_runs:
  "extract_keywords_simple (Str title) =
     join '', '' (filter (\<lambda>w. w \<notin> STOPWORDS) (filter is_token (word_runs (lower title))))"
proof -
  have "filter (\<lambda>w. isalnum w \<and> w \<notin> STOPWORDS) (filter is_token ws)
        = filter (\<lambda>w. w \<notin> STOPWORDS) (filter is_token ws)" for ws
    by (rule filter_cong) (auto simp: token_isalnum)
  then show ?thesis
    by (simp add: extract_keywords_simple_def findall_words_runs Let_def)
qed

lemma extract_keywords_sample:
  "extract_keywords_simple (Str ''Read Chapter 5 and Review Notes'') = ''read, chapter, review, notes''"
  by code_simp

text \<open>
  C6, as stated, fails: a run of letters next to a digit is not a token of the code. In
  "Read chapter5 notes" the run "chapter" has seven alphabetic characters and is no stop
  word, so the tokenisation of the claim keeps it; the code drops it.
\<close>

theorem extract_keywords_counterexample:
  "spec_extract_keywords ''Read chapter5 notes'' = ''read, chapter, notes''
   \<and> extract_keywords_simple (Str ''Read chapter5 notes'') = ''read, notes''"
  by code_simp

text \<open>
  C6, amended. \<open>extract_keywords_simple\<close> lowercases the title, cuts it into words (maximal
  runs of letters, digits and underscores), keeps the words of two or more characters
  that consist of the letters a to z only, drops the stop words, and joins the rest with
  a comma and a space, in their order in the title. On "Read Chapter 5 and Review Notes"
  this gives read, chapter, review, notes.
\<close>

theorem extract_keywords_simple_words:
  "extract_keywords_simple (Str title) =
     join '', '' (filter (\<lambda>w. w \<notin> STOPWORDS) (filter is_token (word_runs (lower title))))
   \<and> extract_keywords_simple (Str ''Read Chapter 5 and Review Notes'')
       = ''read, chapter, review, notes''"
  using extract_keywords_simple_runs extract_keywords_sample by simp

lemma samples_as_added:
  "Keywords quiz = Str (extract_keywords_simple (Task_Name quiz))"
  "Keywords unnamed = Str (extract_keywords_simple (Task_Name unnamed))"
  by code_simp+

end
